theory Spec2Isabelle
  imports Complex_Main
begin

section \<open>pyriemann/estimation.py: estimation of covariance matrices\<close>

text \<open>
  The module is embedded function by function. Python integers are \<open>int\<close>. A two
  dimensional array is the list of its rows. An object is a record; a method takes the
  object and returns it (possibly updated) together with its result; an exception is the
  left summand of the result.
\<close>

subsection \<open>\<open>_nextpow2\<close>\<close>

text \<open>
  \<^verbatim>\<open>
  def _nextpow2(i):
      n = 1
      while n < i:
          n *= 2
      return n
  \<close>
  The \<^verbatim>\<open>while\<close> loop is a recursion on the loop variable \<open>n\<close>. Nothing in its text
  bounds the number of iterations (started from \<open>n = 0\<close> it would never end), so the loop
  lives in the option monad, where \<open>None\<close> means that it does not return.
\<close>

partial_function (option) nextpow2_loop :: "int \<Rightarrow> int \<Rightarrow> int option" where
  "nextpow2_loop n i = (if n < i then nextpow2_loop (n * 2) i else Some n)"

definition nextpow2 :: "int \<Rightarrow> int option" where
  "nextpow2 i = nextpow2_loop 1 i"

subsection \<open>\<open>CospCovariances\<close>: construction\<close>

text \<open>
  \<^verbatim>\<open>
  def __init__(self, window=128, overlap=0.75, fmin=None, fmax=None, fs=None,
               phase_correction=False):
      self._window = _nextpow2(window)
      self._overlap = overlap
      self._fmin = fmin
      self._fmax = fmax
      self._fs = fs
      self._phase_corr = phase_correction
  \<close>
  The type \<open>'a\<close> stands for the floating point scalars; their arithmetic is never
  looked into here.
\<close>

record 'a CospCovariances =
  window :: int
  overlap :: 'a
  fmin :: "'a option"
  fmax :: "'a option"
  fs :: "'a option"
  phase_corr :: bool

definition CospCovariances_init ::
  "int \<Rightarrow> 'a \<Rightarrow> 'a option \<Rightarrow> 'a option \<Rightarrow> 'a option \<Rightarrow> bool \<Rightarrow> 'a CospCovariances option" where
  "CospCovariances_init w ov fmn fmx fsr pc =
     (case nextpow2 w of
        None \<Rightarrow> None
      | Some n \<Rightarrow>
          Some \<lparr>window = n, overlap = ov, fmin = fmn, fmax = fmx, fs = fsr, phase_corr = pc\<rparr>)"

subsection \<open>Values, errors and arrays\<close>

text \<open>
  The arguments whose Python type the code inspects are values of \<open>py_value\<close>.
  \<^verbatim>\<open>isinstance(v, int)\<close> holds of the integers and of the booleans (\<^verbatim>\<open>bool\<close> is a
  subclass of \<^verbatim>\<open>int\<close>), and of no other value. A float is given by the rational it denotes.
\<close>

datatype py_value = PyNone | PyBool bool | PyInt int | PyFloat rat | PyStr string

datatype py_error =
  TypeError | IndexError | ValueError | AttributeError | UnknownEstimator | ShapeMismatch

fun isinstance_int :: "py_value \<Rightarrow> bool" where
  "isinstance_int (PyInt k) = True"
| "isinstance_int (PyBool b) = True"
| "isinstance_int v = False"

type_synonym 'a mat = "'a list list"

text \<open>
  \<^verbatim>\<open>X : ndarray, shape (n_trials, n_channels, n_samples)\<close>: the trials in order, with the
  two trailing dimensions, which an array keeps even when it holds no trial.
\<close>

record 'a ndarray3 =
  n_channels :: nat
  n_samples :: nat
  trials :: "'a mat list"

definition n_trials :: "'a ndarray3 \<Rightarrow> nat" where
  "n_trials X = length (trials X)"


subsection \<open>The numerical library\<close>

text \<open>
  The floating point work of numpy is a parameter: the mean of a list of scalars, the inner
  product of two vectors, and the entries of the matrix \<open>U\<close> of a singular value
  decomposition. What the code decides itself, the shapes and the order of the data, is
  written out.
\<close>

record 'a numeric =
  np_mean1 :: "'a list \<Rightarrow> 'a"
  np_inner :: "'a list \<Rightarrow> 'a list \<Rightarrow> 'a"
  svd_left :: "'a mat \<Rightarrow> nat \<Rightarrow> nat \<Rightarrow> 'a"

text \<open>\<^verbatim>\<open>numpy.unique(y)\<close>: the sorted distinct elements of \<open>y\<close>.\<close>

definition np_unique :: "('l::linorder) list \<Rightarrow> 'l list" where
  "np_unique y = sort (remdups y)"

text \<open>
  \<^verbatim>\<open>X[y == c, :, :]\<close>: the trials at the positions where the label is \<open>c\<close>, in order. A
  boolean index of another length than the indexed axis raises \<^verbatim>\<open>IndexError\<close>.
\<close>

definition bool_index :: "'a ndarray3 \<Rightarrow> 'l list \<Rightarrow> 'l \<Rightarrow> py_error + 'a ndarray3" where
  "bool_index X y c =
     (if length y \<noteq> length (trials X) then Inl IndexError
      else Inr (X\<lparr>trials := map fst (filter (\<lambda>(x, l). l = c) (zip (trials X) y))\<rparr>))"

text \<open>\<^verbatim>\<open>numpy.mean(A, axis=0)\<close> of an array of shape \<open>(m, C, T)\<close>, of shape \<open>(C, T)\<close>.\<close>

definition np_mean_axis0 :: "'a numeric \<Rightarrow> 'a ndarray3 \<Rightarrow> 'a mat" where
  "np_mean_axis0 num A =
     map (\<lambda>i. map (\<lambda>j. np_mean1 num (map (\<lambda>m. m ! i ! j) (trials A))) [0..<n_samples A])
       [0..<n_channels A]"

text \<open>
  \<^verbatim>\<open>U, s, V = numpy.linalg.svd(P)\<close>: for \<open>P\<close> of shape \<open>(C, T)\<close> the matrix \<open>U\<close> has shape
  \<open>(C, C)\<close>.
\<close>

definition linalg_svd_U :: "'a numeric \<Rightarrow> 'a mat \<Rightarrow> 'a mat" where
  "linalg_svd_U num P =
     map (\<lambda>i. map (\<lambda>j. svd_left num P i j) [0..<length P]) [0..<length P]"

text \<open>
  The slice \<^verbatim>\<open>xs[0:k]\<close>: the first \<open>k\<close> elements, all of them when \<open>k\<close> exceeds the
  length; a negative \<open>k\<close> counts from the end.
\<close>

definition py_slice_to :: "int \<Rightarrow> 'a list \<Rightarrow> 'a list" where
  "py_slice_to k xs = (if k < 0 then take (length xs - nat (- k)) xs else take (nat k) xs)"

text \<open>\<^verbatim>\<open>M.T\<close>, the transpose, and \<^verbatim>\<open>numpy.dot(A, B)\<close>, the matrix product.\<close>

definition np_T :: "'a mat \<Rightarrow> 'a mat" where
  "np_T M = (case M of [] \<Rightarrow> [] | r # _ \<Rightarrow> map (\<lambda>j. map (\<lambda>row. row ! j) M) [0..<length r])"

definition np_dot :: "'a numeric \<Rightarrow> 'a mat \<Rightarrow> 'a mat \<Rightarrow> 'a mat" where
  "np_dot num A B = map (\<lambda>r. map (\<lambda>c. np_inner num r c) (np_T B)) A"

text \<open>
  \<^verbatim>\<open>numpy.concatenate(Ps, axis=0)\<close>: the rows of the arrays one after the other; an empty
  sequence of arrays raises \<^verbatim>\<open>ValueError\<close>.
\<close>

definition np_concatenate :: "'a mat list \<Rightarrow> py_error + 'a mat" where
  "np_concatenate Ps = (if Ps = [] then Inl ValueError else Inr (concat Ps))"

subsection \<open>The covariance estimators of \<open>utils.covariance\<close>\<close>

text \<open>
  Modelled from the spec: \<^verbatim>\<open>covariances\<close> and \<^verbatim>\<open>covariances_EP\<close> of
  \<^verbatim>\<open>pyriemann/utils/covariance.py\<close>, which is not among the sources. An estimator name
  resolves to an estimation rule or is unknown, which is an error. The rule maps a matrix
  of \<open>n\<close> rows to a covariance matrix of side \<open>n\<close>; its entries are a parameter.
  \<^verbatim>\<open>covariances\<close> estimates one matrix per trial, in order. \<^verbatim>\<open>covariances_EP\<close> stacks
  the prototype rows above the rows of each trial and estimates one matrix per stacked
  trial, in order; the prototype must have the trials' number of samples.
\<close>

type_synonym 'a estimators = "string \<Rightarrow> ('a mat \<Rightarrow> nat \<Rightarrow> nat \<Rightarrow> 'a) option"

definition estimate_single :: "('a mat \<Rightarrow> nat \<Rightarrow> nat \<Rightarrow> 'a) \<Rightarrow> 'a mat \<Rightarrow> 'a mat" where
  "estimate_single e M = map (\<lambda>i. map (\<lambda>j. e M i j) [0..<length M]) [0..<length M]"

definition covariances :: "'a estimators \<Rightarrow> 'a ndarray3 \<Rightarrow> string \<Rightarrow> py_error + 'a mat list" where
  "covariances reg X est =
     (case reg est of
        None \<Rightarrow> Inl UnknownEstimator
      | Some e \<Rightarrow> Inr (map (estimate_single e) (trials X)))"

definition covariances_EP ::
  "'a estimators \<Rightarrow> 'a ndarray3 \<Rightarrow> 'a mat \<Rightarrow> string \<Rightarrow> py_error + 'a mat list" where
  "covariances_EP reg X P est =
     (case reg est of
        None \<Rightarrow> Inl UnknownEstimator
      | Some e \<Rightarrow>
          if list_all (\<lambda>r. length r = n_samples X) P
          then Inr (map (\<lambda>x. estimate_single e (P @ x)) (trials X))
          else Inl ShapeMismatch)"

subsection \<open>\<open>Covariances\<close>\<close>

text \<open>
  \<^verbatim>\<open>
  def __init__(self, estimator='scm'):
      self.estimator = estimator

  def fit(self, X, y=None):
      return self

  def transform(self, X):
      covmats = covariances(X, estimator=self.estimator)
      return covmats
  \<close>
  \<^verbatim>\<open>fit\<close> returns the object it was called on, so its model returns the object after the
  call. \<^verbatim>\<open>transform\<close> returns its result with the object after the call.
\<close>

record Covariances =
  estimator :: string

definition Covariances_init :: "string \<Rightarrow> Covariances" where
  "Covariances_init est = \<lparr>estimator = est\<rparr>"

definition Covariances_fit :: "Covariances \<Rightarrow> 'a ndarray3 \<Rightarrow> 'l list option \<Rightarrow> Covariances" where
  "Covariances_fit self X y = self"

definition Covariances_transform ::
  "'a estimators \<Rightarrow> Covariances \<Rightarrow> 'a ndarray3 \<Rightarrow> py_error + ('a mat list \<times> Covariances)" where
  "Covariances_transform reg self X =
     (case covariances reg X (estimator self) of
        Inl err \<Rightarrow> Inl err
      | Inr covmats \<Rightarrow> Inr (covmats, self))"

subsection \<open>\<open>ERPCovariances\<close>\<close>

text \<open>
  \<^verbatim>\<open>
  def __init__(self, classes=None, estimator='scm', svd=None):
      self.classes = classes
      self.estimator = estimator
      self.svd = svd

      if svd is not None:
          if not isinstance(svd, int):
              raise TypeError('svd must be None or int')
  \<close>
  The attribute \<^verbatim>\<open>P\<close> exists only once \<^verbatim>\<open>fit\<close> has run: it is \<open>None\<close> before.
\<close>

record ('a, 'l) ERPCovariances =
  erp_classes :: "'l list option"
  erp_estimator :: string
  erp_svd :: py_value
  erp_P :: "'a mat option"

definition ERPCovariances_init ::
  "'l list option \<Rightarrow> string \<Rightarrow> py_value \<Rightarrow> py_error + ('a, 'l) ERPCovariances" where
  "ERPCovariances_init cls est k =
     (if k \<noteq> PyNone then
        (if \<not> isinstance_int k then Inl TypeError
         else Inr \<lparr>erp_classes = cls, erp_estimator = est, erp_svd = k, erp_P = None\<rparr>)
      else Inr \<lparr>erp_classes = cls, erp_estimator = est, erp_svd = k, erp_P = None\<rparr>)"

text \<open>
  \<^verbatim>\<open>
  def fit(self, X, y):
      if self.classes is not None:
          classes = self.classes
      else:
          classes = numpy.unique(y)

      self.P = []
      for c in classes:
          P = numpy.mean(X[y == c, :, :], axis=0)
          if self.svd is not None:
              U, s, V = numpy.linalg.svd(P)
              P = numpy.dot(U[:, 0:self.svd].T, P)
          self.P.append(P)

      self.P = numpy.concatenate(self.P, axis=0)
      return self
  \<close>
  \<open>svd_reduce\<close> is the conditional in the loop body. The bound of the slice
  \<^verbatim>\<open>0:self.svd\<close> is the integer, a boolean being the integer 0 or 1, and a bound that is
  no integer raises \<^verbatim>\<open>TypeError\<close>. \<open>fit_loop\<close> is the \<^verbatim>\<open>for\<close> loop, with the list
  \<^verbatim>\<open>self.P\<close> as its accumulator.
\<close>

fun slice_bound :: "py_value \<Rightarrow> py_error + int option" where
  "slice_bound PyNone = Inr None"
| "slice_bound (PyInt n) = Inr (Some n)"
| "slice_bound (PyBool b) = Inr (Some (if b then 1 else 0))"
| "slice_bound v = Inl TypeError"

definition svd_project :: "'a numeric \<Rightarrow> int \<Rightarrow> 'a mat \<Rightarrow> 'a mat" where
  "svd_project num n P = np_dot num (np_T (map (py_slice_to n) (linalg_svd_U num P))) P"

definition svd_reduce :: "'a numeric \<Rightarrow> py_value \<Rightarrow> 'a mat \<Rightarrow> py_error + 'a mat" where
  "svd_reduce num k P =
     (case slice_bound k of
        Inl err \<Rightarrow> Inl err
      | Inr None \<Rightarrow> Inr P
      | Inr (Some n) \<Rightarrow> Inr (svd_project num n P))"

fun fit_loop ::
  "'a numeric \<Rightarrow> ('a, 'l) ERPCovariances \<Rightarrow> 'a ndarray3 \<Rightarrow> 'l list \<Rightarrow> 'l list \<Rightarrow> 'a mat list \<Rightarrow>
     py_error + 'a mat list" where
  "fit_loop num self X y [] acc = Inr acc"
| "fit_loop num self X y (c # cs) acc =
     (case bool_index X y c of
        Inl err \<Rightarrow> Inl err
      | Inr sel \<Rightarrow>
          (case svd_reduce num (erp_svd self) (np_mean_axis0 num sel) of
             Inl err \<Rightarrow> Inl err
           | Inr P \<Rightarrow> fit_loop num self X y cs (acc @ [P])))"

definition ERPCovariances_fit ::
  "'a numeric \<Rightarrow> ('a, 'l::linorder) ERPCovariances \<Rightarrow> 'a ndarray3 \<Rightarrow> 'l list \<Rightarrow>
     py_error + ('a, 'l) ERPCovariances" where
  "ERPCovariances_fit num self X y =
     (let classes = (case erp_classes self of Some cs \<Rightarrow> cs | None \<Rightarrow> np_unique y) in
      case fit_loop num self X y classes [] of
        Inl err \<Rightarrow> Inl err
      | Inr Ps \<Rightarrow>
          (case np_concatenate Ps of
             Inl err \<Rightarrow> Inl err
           | Inr P \<Rightarrow> Inr (self\<lparr>erp_P := Some P\<rparr>)))"

text \<open>
  \<^verbatim>\<open>
  def transform(self, X):
      covmats = covariances_EP(X, self.P, estimator=self.estimator)
      return covmats
  \<close>
\<close>

definition ERPCovariances_transform ::
  "'a estimators \<Rightarrow> ('a, 'l) ERPCovariances \<Rightarrow> 'a ndarray3 \<Rightarrow>
     py_error + ('a mat list \<times> ('a, 'l) ERPCovariances)" where
  "ERPCovariances_transform reg self X =
     (case erp_P self of
        None \<Rightarrow> Inl AttributeError
      | Some P \<Rightarrow>
          (case covariances_EP reg X P (erp_estimator self) of
             Inl err \<Rightarrow> Inl err
           | Inr covmats \<Rightarrow> Inr (covmats, self)))"

subsection \<open>\<open>XdawnCovariances\<close>\<close>

text \<open>
  Modelled from the spec: the class \<^verbatim>\<open>Xdawn\<close> of \<^verbatim>\<open>pyriemann/spatialfilters.py\<close>,
  which is not among the sources. A spatial filter is an object of a type \<open>'x\<close> with a
  constructor, a fitting procedure that learns the projections and the evoked responses
  or fails, a projection of one trial into the reduced channel space, the number of
  channels of that space, and the evoked responses, which exist once the filter is
  fitted. Its \<^verbatim>\<open>transform\<close> projects every trial of the batch, in order, and reads the
  filter only.
\<close>

record ('a, 'l, 'x) spatialfilter =
  Xdawn_init :: "int \<Rightarrow> 'l list option \<Rightarrow> 'x"
  Xdawn_fit :: "'x \<Rightarrow> 'a ndarray3 \<Rightarrow> 'l list \<Rightarrow> py_error + 'x"
  Xdawn_project :: "'x \<Rightarrow> 'a mat \<Rightarrow> 'a mat"
  Xdawn_n_out :: "'x \<Rightarrow> nat"
  evokeds :: "'x \<Rightarrow> 'a mat option"

definition Xdawn_transform :: "('a, 'l, 'x) spatialfilter \<Rightarrow> 'x \<Rightarrow> 'a ndarray3 \<Rightarrow> 'a ndarray3" where
  "Xdawn_transform sf xd X =
     X\<lparr>n_channels := Xdawn_n_out sf xd, trials := map (Xdawn_project sf xd) (trials X)\<rparr>"

text \<open>
  \<^verbatim>\<open>
  def __init__(self, nfilter=4, applyfilters=True, classes=None,
               estimator='scm'):
      self.Xd = Xdawn(nfilter=nfilter, classes=classes)
      self.applyfilters = applyfilters
      self.estimator = estimator

  def fit(self, X, y):
      self.Xd.fit(X, y)
      return self

  def transform(self, X):
      if self.applyfilters:
          X = self.Xd.transform(X)

      covmats = covariances_EP(X, self.Xd.evokeds_, estimator=self.estimator)
      return covmats

  def fit_transform(self, X, y):
      self.fit(X, y)
      return self.transform(X)
  \<close>
\<close>

record 'x XdawnCovariances =
  Xd :: 'x
  applyfilters :: bool
  xd_estimator :: string

definition XdawnCovariances_init ::
  "('a, 'l, 'x) spatialfilter \<Rightarrow> int \<Rightarrow> bool \<Rightarrow> 'l list option \<Rightarrow> string \<Rightarrow> 'x XdawnCovariances" where
  "XdawnCovariances_init sf nfilter apply cls est =
     \<lparr>Xd = Xdawn_init sf nfilter cls, applyfilters = apply, xd_estimator = est\<rparr>"

definition XdawnCovariances_fit ::
  "('a, 'l, 'x) spatialfilter \<Rightarrow> 'x XdawnCovariances \<Rightarrow> 'a ndarray3 \<Rightarrow> 'l list \<Rightarrow>
     py_error + 'x XdawnCovariances" where
  "XdawnCovariances_fit sf self X y =
     (case Xdawn_fit sf (Xd self) X y of
        Inl err \<Rightarrow> Inl err
      | Inr xd \<Rightarrow> Inr (self\<lparr>Xd := xd\<rparr>))"

definition XdawnCovariances_transform ::
  "('a, 'l, 'x) spatialfilter \<Rightarrow> 'a estimators \<Rightarrow> 'x XdawnCovariances \<Rightarrow> 'a ndarray3 \<Rightarrow>
     py_error + ('a mat list \<times> 'x XdawnCovariances)" where
  "XdawnCovariances_transform sf reg self X =
     (let X1 = (if applyfilters self then Xdawn_transform sf (Xd self) X else X) in
      case evokeds sf (Xd self) of
        None \<Rightarrow> Inl AttributeError
      | Some ev \<Rightarrow>
          (case covariances_EP reg X1 ev (xd_estimator self) of
             Inl err \<Rightarrow> Inl err
           | Inr covmats \<Rightarrow> Inr (covmats, self)))"

definition XdawnCovariances_fit_transform ::
  "('a, 'l, 'x) spatialfilter \<Rightarrow> 'a estimators \<Rightarrow> 'x XdawnCovariances \<Rightarrow> 'a ndarray3 \<Rightarrow> 'l list \<Rightarrow>
     py_error + ('a mat list \<times> 'x XdawnCovariances)" where
  "XdawnCovariances_fit_transform sf reg self X y =
     (case XdawnCovariances_fit sf self X y of
        Inl err \<Rightarrow> Inl err
      | Inr self1 \<Rightarrow> XdawnCovariances_transform sf reg self1 X)"

subsection \<open>\<open>CospCovariances\<close>: the methods\<close>

text \<open>
  \<^verbatim>\<open>
  def fit(self, X, y=None):
      return self

  def transform(self, X):
      Nt, Ne, _ = X.shape
      out = []
      for i in range(Nt):
          S = cospectrum(X[i], window=self._window, overlap=self._overlap,
                         fmin=self._fmin, fmax=self._fmax, fs=self._fs)
          out.append(S.real)
      return numpy.array(out)

  def fit_transform(self, X, y=None):
      return self.transform(X)
  \<close>
  The primitive \<^verbatim>\<open>cospectrum\<close> of \<^verbatim>\<open>utils.covariance\<close> is a parameter. It returns a
  three dimensional array of complex numbers, a complex number being the pair of its real
  and imaginary parts, so that \<^verbatim>\<open>S.real\<close> takes the first component of every entry. The
  loop runs over \<^verbatim>\<open>range(Nt)\<close> with the list \<^verbatim>\<open>out\<close>; beside it the model records the
  arguments of every call of the primitive, in the order of the calls.
\<close>

type_synonym 'a cospectrum =
  "'a mat \<Rightarrow> int \<Rightarrow> 'a \<Rightarrow> 'a option \<Rightarrow> 'a option \<Rightarrow> 'a option \<Rightarrow> ('a \<times> 'a) list list list"

type_synonym 'a cospectrum_call = "'a mat \<times> int \<times> 'a \<times> 'a option \<times> 'a option \<times> 'a option"

definition real_part :: "('a \<times> 'a) list list list \<Rightarrow> 'a list list list" where
  "real_part S = map (map (map fst)) S"

definition CospCovariances_fit ::
  "'a CospCovariances \<Rightarrow> 'a ndarray3 \<Rightarrow> 'l list option \<Rightarrow> 'a CospCovariances" where
  "CospCovariances_fit self X y = self"

fun transform_loop ::
  "'a cospectrum \<Rightarrow> 'a CospCovariances \<Rightarrow> 'a ndarray3 \<Rightarrow> nat list \<Rightarrow>
     'a list list list list \<times> 'a cospectrum_call list \<Rightarrow>
     'a list list list list \<times> 'a cospectrum_call list" where
  "transform_loop cosp self X [] (out, calls) = (out, calls)"
| "transform_loop cosp self X (i # is) (out, calls) =
     (let S = cosp (trials X ! i) (window self) (overlap self) (fmin self) (fmax self) (fs self)
      in transform_loop cosp self X is
           (out @ [real_part S],
            calls @ [(trials X ! i, window self, overlap self, fmin self, fmax self, fs self)]))"

definition CospCovariances_transform ::
  "'a cospectrum \<Rightarrow> 'a CospCovariances \<Rightarrow> 'a ndarray3 \<Rightarrow>
     ('a list list list list \<times> 'a cospectrum_call list) \<times> 'a CospCovariances" where
  "CospCovariances_transform cosp self X =
     (let Nt = length (trials X) in (transform_loop cosp self X [0..<Nt] ([], []), self))"

definition CospCovariances_fit_transform ::
  "'a cospectrum \<Rightarrow> 'a CospCovariances \<Rightarrow> 'a ndarray3 \<Rightarrow> 'l list option \<Rightarrow>
     ('a list list list list \<times> 'a cospectrum_call list) \<times> 'a CospCovariances" where
  "CospCovariances_fit_transform cosp self X y = CospCovariances_transform cosp self X"

subsection \<open>The prototype set, as specified\<close>

text \<open>
  \<open>has_shape M r c\<close>: the array \<open>M\<close> has \<open>r\<close> rows, each of \<open>c\<close> entries. A
  configured rank that is a natural number, or no rank, is the value \<open>rank_value r\<close>.
\<close>

definition has_shape :: "'a mat \<Rightarrow> nat \<Rightarrow> nat \<Rightarrow> bool" where
  "has_shape M r c = (length M = r \<and> list_all (\<lambda>row. length row = c) M)"


text \<open>
  The mean over all trials whose label equals the class \<open>c\<close>, and what one pass of the
  loop of \<^verbatim>\<open>fit\<close> appends for the class when the bound of the slice is \<open>b\<close>.
\<close>

definition class_mean :: "'a numeric \<Rightarrow> 'a ndarray3 \<Rightarrow> 'l list \<Rightarrow> 'l \<Rightarrow> 'a mat" where
  "class_mean num X y c =
     np_mean_axis0 num
       (X\<lparr>trials := map (\<lambda>i. trials X ! i) (filter (\<lambda>i. y ! i = c) [0..<n_trials X])\<rparr>)"

definition prototype :: "'a numeric \<Rightarrow> int option \<Rightarrow> 'a ndarray3 \<Rightarrow> 'l list \<Rightarrow> 'l \<Rightarrow> 'a mat" where
  "prototype num b X y c =
     (case b of
        None \<Rightarrow> class_mean num X y c
      | Some n \<Rightarrow> svd_project num n (class_mean num X y c))"




subsection \<open>Example data\<close>

text \<open>
  Instances on which the model is evaluated: exact arithmetic on the rationals for the
  numerical library, with the identity for the matrix \<open>U\<close> (the left singular vectors of
  a diagonal matrix whose entries decrease); a registry that knows the estimator
  \<^verbatim>\<open>'scm'\<close> only; a batch of three trials of two channels and two samples with the
  labels 2, 1, 2; a cospectrum primitive; and a spatial filter that keeps the first
  channel and has the mean of all trials as its evoked responses.
\<close>

definition exact_num :: "rat numeric" where
  "exact_num =
     \<lparr>np_mean1 = (\<lambda>xs. sum_list xs / of_nat (length xs)),
      np_inner = (\<lambda>u v. sum_list (map2 (*) u v)),
      svd_left = (\<lambda>P i j. if i = j then 1 else 0)\<rparr>"

definition scm_rule :: "rat mat \<Rightarrow> nat \<Rightarrow> nat \<Rightarrow> rat" where
  "scm_rule M i j = sum_list (map2 (*) (M ! i) (M ! j))"

definition scm_only :: "rat estimators" where
  "scm_only name = (if name = ''scm'' then Some scm_rule else None)"

definition example_batch :: "rat ndarray3" where
  "example_batch =
     \<lparr>n_channels = 2, n_samples = 2,
      trials = [[[2, 0], [0, 1]], [[4, 0], [0, 2]], [[10, 0], [0, 3]]]\<rparr>"

definition example_labels :: "int list" where
  "example_labels = [2, 1, 2]"

definition example_erp :: "py_value \<Rightarrow> rat mat option \<Rightarrow> (rat, int) ERPCovariances" where
  "example_erp k P = \<lparr>erp_classes = None, erp_estimator = ''scm'', erp_svd = k, erp_P = P\<rparr>"

definition example_cospectrum :: "rat cospectrum" where
  "example_cospectrum x w ov fmn fmx fsr = [[[(sum_list (concat x) * of_int w, ov)]]]"

definition example_cosp :: "rat CospCovariances" where
  "example_cosp =
     \<lparr>window = 128, overlap = 3 / 4, fmin = None, fmax = None, fs = None, phase_corr = False\<rparr>"

definition example_xdawn :: "rat mat option XdawnCovariances" where
  "example_xdawn = \<lparr>Xd = Some [[16 / 3, 0], [0, 2]], applyfilters = True, xd_estimator = ''scm''\<rparr>"

definition example_filter :: "(rat, int, rat mat option) spatialfilter" where
  "example_filter =
     \<lparr>Xdawn_init = (\<lambda>nfilter cls. None),
      Xdawn_fit = (\<lambda>xd X y. if length y = n_trials X then Inr (Some (np_mean_axis0 exact_num X))
                             else Inl IndexError),
      Xdawn_project = (\<lambda>xd x. take 1 x),
      Xdawn_n_out = (\<lambda>xd. 1),
      evokeds = (\<lambda>xd. xd)\<rparr>"

section \<open>Properties\<close>

subsection \<open>The window of a cospectral transform\<close>

lemma nextpow2_loop_power:
  "\<exists>k. nextpow2_loop (2 ^ a) i = Some (2 ^ k) \<and> a \<le> k \<and> i \<le> 2 ^ k \<and> (k = a \<or> 2 ^ (k - 1) < i)"
proof (induction "nat (i - 2 ^ a)" arbitrary: a rule: less_induct)
  case less
  show ?case
  proof (cases "(2::int) ^ a < i")
    case True
    have smaller: "nat (i - 2 ^ Suc a) < nat (i - 2 ^ a)"
      using True by simp
    obtain k where k: "nextpow2_loop (2 ^ Suc a) i = Some (2 ^ k)" "Suc a \<le> k"
        "i \<le> 2 ^ k" "k = Suc a \<or> 2 ^ (k - 1) < i"
      using less [OF smaller] by blast
    have step: "nextpow2_loop (2 ^ a) i = nextpow2_loop (2 ^ Suc a) i"
      using True by (subst nextpow2_loop.simps) (simp add: mult.commute)
    have "k = a \<or> 2 ^ (k - 1) < i"
      using k(4) True by auto
    with k step show ?thesis
      by (intro exI [of _ k]) simp
  next
    case False
    have "nextpow2_loop (2 ^ a) i = Some (2 ^ a)"
      using False by (subst nextpow2_loop.simps) simp
    with False show ?thesis
      by (intro exI [of _ a]) simp
  qed
qed

lemma nextpow2_least:
  "\<exists>k. nextpow2 i = Some (2 ^ k) \<and> i \<le> 2 ^ k \<and> (\<forall>j. i \<le> 2 ^ j \<longrightarrow> (2::int) ^ k \<le> 2 ^ j)"
proof -
  obtain k where k: "nextpow2_loop (2 ^ 0) i = Some (2 ^ k)" "i \<le> 2 ^ k"
      "k = 0 \<or> 2 ^ (k - 1) < i"
    using nextpow2_loop_power [of 0 i] by blast
  have least: "(2::int) ^ k \<le> 2 ^ j" if "i \<le> 2 ^ j" for j
  proof (cases "k = 0")
    case True
    then show ?thesis by simp
  next
    case False
    with k(3) that have "(2::int) ^ (k - 1) < 2 ^ j" by linarith
    then have "k - 1 < j" by (simp add: power_strict_increasing_iff)
    then have "k \<le> j" by simp
    then show ?thesis by simp
  qed
  from k(1) have "nextpow2 i = Some (2 ^ k)"
    by (simp add: nextpow2_def)
  with k(2) least show ?thesis by blast
qed

lemma nextpow2_100: "nextpow2 100 = Some 128"
  unfolding nextpow2_def by (simp add: nextpow2_loop.simps)

lemma nextpow2_128: "nextpow2 128 = Some 128"
  unfolding nextpow2_def by (simp add: nextpow2_loop.simps)

text \<open>
  C2. For every requested window length \<open>w\<close> the constructor of \<open>CospCovariances\<close>
  returns, and the window it stores is a power of two, is at least \<open>w\<close>, and
  is the least such power of two; the other arguments are stored as given. In particular
  a requested window of 100 is stored as 128, and one of 128 as 128.
\<close>

theorem CospCovariances_init_window:
  "(\<exists>self k. CospCovariances_init w ov fmn fmx fsr pc = Some self \<and>
      self = \<lparr>window = 2 ^ k, overlap = ov, fmin = fmn, fmax = fmx, fs = fsr, phase_corr = pc\<rparr> \<and>
      w \<le> window self \<and> (\<forall>j. w \<le> 2 ^ j \<longrightarrow> window self \<le> 2 ^ j)) \<and>
   map_option window (CospCovariances_init 100 ov fmn fmx fsr pc) = Some 128 \<and>
   map_option window (CospCovariances_init 128 ov fmn fmx fsr pc) = Some 128"
proof -
  obtain k where k: "nextpow2 w = Some (2 ^ k)" "w \<le> 2 ^ k"
      "\<forall>j. w \<le> 2 ^ j \<longrightarrow> (2::int) ^ k \<le> 2 ^ j"
    using nextpow2_least [of w] by blast
  have "CospCovariances_init w ov fmn fmx fsr pc =
      Some \<lparr>window = 2 ^ k, overlap = ov, fmin = fmn, fmax = fmx, fs = fsr, phase_corr = pc\<rparr>"
    using k(1) by (simp add: CospCovariances_init_def)
  with k(2,3) have general: "\<exists>self k. CospCovariances_init w ov fmn fmx fsr pc = Some self \<and>
      self = \<lparr>window = 2 ^ k, overlap = ov, fmin = fmn, fmax = fmx, fs = fsr, phase_corr = pc\<rparr> \<and>
      w \<le> window self \<and> (\<forall>j. w \<le> 2 ^ j \<longrightarrow> window self \<le> 2 ^ j)"
    by simp
  have "map_option window (CospCovariances_init 100 ov fmn fmx fsr pc) = Some 128"
    and "map_option window (CospCovariances_init 128 ov fmn fmx fsr pc) = Some 128"
    by (simp_all add: CospCovariances_init_def nextpow2_100 nextpow2_128)
  with general show ?thesis by blast
qed

theorem CospCovariances_init_window_witness:
  "\<exists>self. CospCovariances_init 100 (3 / 4 :: rat) None None None False = Some self \<and>
     window self = 128 \<and> (100 \<le> (2::int) ^ 7 \<longrightarrow> window self \<le> 2 ^ 7)"
  using CospCovariances_init_window [of 100 "3 / 4 :: rat" None None None False]
  by (simp add: CospCovariances_init_def nextpow2_100)

subsection \<open>The construction of \<open>ERPCovariances\<close>\<close>

text \<open>
  C1. The constructor of \<open>ERPCovariances\<close> returns the object, with the rank stored
  as given, when the rank is \<^verbatim>\<open>None\<close>, an integer of either sign, or a boolean (an
  instance of \<^verbatim>\<open>int\<close> in Python); for every other rank it raises \<^verbatim>\<open>TypeError\<close> itself,
  so that no object exists on which \<^verbatim>\<open>fit\<close> or \<^verbatim>\<open>transform\<close> could run.
\<close>

theorem ERPCovariances_init_svd:
  "(k = PyNone \<or> k = PyInt n \<or> k = PyBool b \<longrightarrow>
      ERPCovariances_init cls est k =
        Inr \<lparr>erp_classes = cls, erp_estimator = est, erp_svd = k, erp_P = None\<rparr>) \<and>
   (k \<noteq> PyNone \<and> \<not> isinstance_int k \<longrightarrow> ERPCovariances_init cls est k = Inl TypeError)"
  by (auto simp: ERPCovariances_init_def)

theorem ERPCovariances_init_svd_witness:
  "ERPCovariances_init (Some [1::int, 2]) ''scm'' (PyInt (- 3)) =
     (Inr \<lparr>erp_classes = Some [1, 2], erp_estimator = ''scm'', erp_svd = PyInt (- 3),
           erp_P = None\<rparr> :: py_error + (rat, int) ERPCovariances) \<and>
   ERPCovariances_init (Some [1::int, 2]) ''scm'' (PyFloat (5 / 2)) =
     (Inl TypeError :: py_error + (rat, int) ERPCovariances)"
  using ERPCovariances_init_svd [of "PyInt (- 3)" "- 3" True "Some [1::int, 2]" "''scm''"]
    ERPCovariances_init_svd [of "PyFloat (5 / 2)" 0 True "Some [1::int, 2]" "''scm''"]
  by simp

subsection \<open>The prototype set built by \<open>fit\<close>\<close>

lemma zip_as_map: "length xs = length ys \<Longrightarrow> zip xs ys = map (\<lambda>i. (xs ! i, ys ! i)) [0..<length xs]"
  by (intro nth_equalityI) simp_all

lemma select_by_index:
  assumes "length ys = length xs"
  shows "map fst (filter (\<lambda>(x, l). l = c) (zip xs ys)) =
         map (\<lambda>i. xs ! i) (filter (\<lambda>i. ys ! i = c) [0..<length xs])"
proof -
  have "zip xs ys = map (\<lambda>i. (xs ! i, ys ! i)) [0..<length xs]"
    using assms by (simp add: zip_as_map)
  then show ?thesis
    by (simp add: filter_map comp_def)
qed

lemma bool_index_eq:
  "length y = n_trials X \<Longrightarrow>
   bool_index X y c =
     Inr (X\<lparr>trials := map (\<lambda>i. trials X ! i) (filter (\<lambda>i. y ! i = c) [0..<n_trials X])\<rparr>)"
  by (simp add: bool_index_def n_trials_def select_by_index)




lemma fit_loop_eq:
  assumes "length y = n_trials X" "slice_bound (erp_svd self) = Inr b"
  shows "fit_loop num self X y cs acc = Inr (acc @ map (prototype num b X y) cs)"
proof (induction cs arbitrary: acc)
  case Nil
  show ?case by simp
next
  case (Cons c cs)
  have "svd_reduce num (erp_svd self) (class_mean num X y c) = Inr (prototype num b X y c)"
    using assms(2) by (cases b) (simp_all add: svd_reduce_def prototype_def)
  then show ?case
    using assms(1) Cons.IH [of "acc @ [prototype num b X y c]"]
    by (simp add: bool_index_eq class_mean_def)
qed

lemma fit_eq:
  assumes "length y = n_trials X" "slice_bound (erp_svd self) = Inr b"
    and "classes = (case erp_classes self of Some cs \<Rightarrow> cs | None \<Rightarrow> np_unique y)"
    and "classes \<noteq> []"
  shows "ERPCovariances_fit num self X y =
         Inr (self\<lparr>erp_P := Some (concat (map (prototype num b X y) classes))\<rparr>)"
  using assms(3,4) fit_loop_eq [OF assms(1,2), of num classes "[]"]
  by (simp add: ERPCovariances_fit_def np_concatenate_def Let_def)






lemma has_shape_T: "has_shape M r c \<Longrightarrow> 0 < r \<Longrightarrow> has_shape (np_T M) c r"
  by (cases M) (auto simp: has_shape_def np_T_def list_all_iff)







lemma init_fields:
  assumes "ERPCovariances_init cls est k = Inr self"
  shows "erp_classes self = cls" "erp_estimator self = est" "erp_svd self = k" "erp_P self = None"
  using assms by (auto simp: ERPCovariances_init_def split: if_splits)




subsection \<open>The class order of \<open>fit\<close>\<close>

lemma np_unique_sorted: "sorted_wrt (<) (np_unique y) \<and> set (np_unique y) = set y"
  by (simp add: np_unique_def strict_sorted_iff)

text \<open>
  C10. When \<open>ERPCovariances\<close> is constructed with \<^verbatim>\<open>classes=None\<close> (and any rank the
  constructor accepts), \<^verbatim>\<open>fit\<close> on aligned, non-empty labels stores the per-class blocks
  in the strictly ascending order of the distinct label values. On the labels 2, 1, 2 the
  block of class 1 comes first, although class 2 appears first.
\<close>

theorem ERPCovariances_fit_class_order:
  assumes "ERPCovariances_init None est k = Inr self"
    and "length y = n_trials X" and "y \<noteq> []"
  shows "\<exists>classes b. sorted_wrt (<) classes \<and> set classes = set y \<and>
           slice_bound k = Inr b \<and>
           ERPCovariances_fit num self X y =
             Inr (self\<lparr>erp_P := Some (concat (map (prototype num b X y) classes))\<rparr>)"
proof -
  obtain b where b: "slice_bound k = Inr b"
    using assms(1) by (cases k) (auto simp: ERPCovariances_init_def)
  have fields: "erp_classes self = None" "erp_svd self = k"
    using init_fields [OF assms(1)] by simp_all
  have ne: "np_unique y \<noteq> []"
    using assms(3) np_unique_sorted [of y] by (metis set_empty)
  have "ERPCovariances_fit num self X y =
      Inr (self\<lparr>erp_P := Some (concat (map (prototype num b X y) (np_unique y)))\<rparr>)"
    using fields b by (intro fit_eq [OF assms(2) _ _ ne]) simp_all
  with b np_unique_sorted [of y] show ?thesis by blast
qed

theorem ERPCovariances_fit_class_order_witness:
  "ERPCovariances_init None ''scm'' PyNone = Inr (example_erp PyNone None) \<and>
   length example_labels = n_trials example_batch \<and> example_labels \<noteq> [] \<and>
   example_labels = [2, 1, 2] \<and>
   ERPCovariances_fit exact_num (example_erp PyNone None) example_batch example_labels =
     Inr (example_erp PyNone (Some [[4, 0], [0, 2], [6, 0], [0, 2]])) \<and>
   concat (map (prototype exact_num None example_batch example_labels) [1, 2]) =
     [[4, 0], [0, 2], [6, 0], [0, 2]] \<and>
   concat (map (prototype exact_num None example_batch example_labels) [2, 1]) =
     [[6, 0], [0, 2], [4, 0], [0, 2]]"
proof -
  have h1: "ERPCovariances_init None ''scm'' PyNone = Inr (example_erp PyNone None)"
    by code_simp
  have h2: "length example_labels = n_trials example_batch"
    by code_simp
  have h3: "example_labels \<noteq> []"
    by (simp add: example_labels_def)
  have e1: "concat (map (prototype exact_num None example_batch example_labels) [1, 2]) =
     [[4, 0], [0, 2], [6, 0], [0, 2]]"
    by code_simp
  have e2: "concat (map (prototype exact_num None example_batch example_labels) [2, 1]) =
     [[6, 0], [0, 2], [4, 0], [0, 2]]"
    by code_simp
  have fit: "ERPCovariances_fit exact_num (example_erp PyNone None) example_batch example_labels =
     Inr (example_erp PyNone (Some [[4, 0], [0, 2], [6, 0], [0, 2]]))"
    by code_simp
  from ERPCovariances_fit_class_order [OF h1 h2 h3, of exact_num] h1 h2 h3 e1 e2 fit
  show ?thesis
    by (simp add: example_labels_def)
qed

subsection \<open>The shape of the matrices of \<open>ERPCovariances.transform\<close>\<close>






subsection \<open>The calls of \<open>CospCovariances.transform\<close>\<close>

lemma transform_loop_eq:
  "transform_loop cosp self X idx (out, calls) =
     (out @ map (\<lambda>i. real_part (cosp (trials X ! i) (window self) (overlap self) (fmin self)
                         (fmax self) (fs self))) idx,
      calls @ map (\<lambda>i. (trials X ! i, window self, overlap self, fmin self, fmax self, fs self)) idx)"
  by (induction idx arbitrary: out calls) (simp_all add: Let_def)

lemma map_index_nth: "map (\<lambda>i. f (xs ! i)) [0..<length xs] = map f xs"
  by (intro nth_equalityI) simp_all

lemma CospCovariances_transform_eq:
  "CospCovariances_transform cosp self X =
     ((map (\<lambda>x. real_part (cosp x (window self) (overlap self) (fmin self) (fmax self) (fs self)))
         (trials X),
       map (\<lambda>x. (x, window self, overlap self, fmin self, fmax self, fs self)) (trials X)),
      self)"
  using map_index_nth [of "\<lambda>x. real_part (cosp x (window self) (overlap self) (fmin self) (fmax self) (fs self))" "trials X"]
    map_index_nth [of "\<lambda>x. (x, window self, overlap self, fmin self, fmax self, fs self)" "trials X"]
  by (simp add: CospCovariances_transform_def transform_loop_eq Let_def)

text \<open>
  C5. For a component constructed with a window \<open>w\<close>, an overlap and the optional
  \<open>fmin\<close>, \<open>fmax\<close> and \<open>fs\<close>, \<^verbatim>\<open>transform\<close> calls the cospectrum primitive once per trial,
  in the order of the trials, each time with the trial, the stored window (the next power of
  two of \<open>w\<close>) and the stored overlap, \<open>fmin\<close>, \<open>fmax\<close> and \<open>fs\<close>; its result is the list,
  in the same order, of the real parts of what the calls return; the component is unchanged.
\<close>

theorem CospCovariances_transform_calls:
  assumes "CospCovariances_init w ov fmn fmx fsr pc = Some self"
  shows "CospCovariances_transform cosp self X =
           ((map (\<lambda>x. real_part (cosp x (window self) ov fmn fmx fsr)) (trials X),
             map (\<lambda>x. (x, window self, ov, fmn, fmx, fsr)) (trials X)),
            self) \<and>
         nextpow2 w = Some (window self)"
proof -
  have "overlap self = ov \<and> fmin self = fmn \<and> fmax self = fmx \<and> fs self = fsr \<and>
      nextpow2 w = Some (window self)"
    using assms by (auto simp: CospCovariances_init_def split: option.splits)
  then show ?thesis
    by (simp add: CospCovariances_transform_eq)
qed

theorem CospCovariances_transform_calls_witness:
  "CospCovariances_init 100 (3 / 4) None None None False = Some example_cosp \<and>
   CospCovariances_transform example_cospectrum example_cosp example_batch =
     (([[[[384]]], [[[768]]], [[[1664]]]],
       [([[2, 0], [0, 1]], 128, 3 / 4, None, None, None),
        ([[4, 0], [0, 2]], 128, 3 / 4, None, None, None),
        ([[10, 0], [0, 3]], 128, 3 / 4, None, None, None)]),
      example_cosp)"
proof -
  have h: "CospCovariances_init 100 (3 / 4) None None None False = Some example_cosp"
    by (simp add: CospCovariances_init_def nextpow2_100 example_cosp_def)
  have ev: "map (\<lambda>x. real_part (example_cospectrum x (window example_cosp) (3 / 4) None None None))
         (trials example_batch) = [[[[384]]], [[[768]]], [[[1664]]]]"
    by code_simp
  have ev2: "map (\<lambda>x. (x, window example_cosp, 3 / 4 :: rat, None :: rat option, None :: rat option,
               None :: rat option)) (trials example_batch) =
       [([[2, 0], [0, 1]], 128, 3 / 4, None, None, None),
        ([[4, 0], [0, 2]], 128, 3 / 4, None, None, None),
        ([[10, 0], [0, 3]], 128, 3 / 4, None, None, None)]"
    by code_simp
  from CospCovariances_transform_calls [OF h, of example_cospectrum example_batch] h
  show ?thesis
    unfolding ev ev2 by blast
qed

subsection \<open>The order of the results\<close>

lemma covariances_eq:
  "reg est = Some e \<Longrightarrow> covariances reg X est = Inr (map (estimate_single e) (trials X))"
  by (simp add: covariances_def)

lemma covariances_EP_eq2:
  assumes "reg est = Some e" "list_all (\<lambda>r. length r = n_samples X) P"
  shows "covariances_EP reg X P est = Inr (map (\<lambda>x. estimate_single e (P @ x)) (trials X))"
  using assms by (simp add: covariances_EP_def)

text \<open>
  C6. For each of the four transforms, when the estimator name is known and the prototype
  set (the evoked responses) exists with the batch's number of samples, the result has one
  entry per trial and the entry at index \<open>i\<close> is computed from the trial at index \<open>i\<close>:
  its covariance estimate for \<open>Covariances\<close>, the estimate of the prototype set stacked on
  it for \<open>ERPCovariances\<close>, the estimate of the evoked responses stacked on the trial
  (projected when the filters are applied) for \<open>XdawnCovariances\<close>, and the real part of
  its cospectrum for \<open>CospCovariances\<close>.
\<close>

theorem transforms_preserve_order:
  assumes "reg (estimator cov) = Some e1"
    and "erp_P erp = Some P" and "reg (erp_estimator erp) = Some e2"
    and "list_all (\<lambda>r. length r = n_samples X) P"
    and "evokeds sf (Xd xdc) = Some ev" and "reg (xd_estimator xdc) = Some e3"
    and "list_all (\<lambda>r. length r = n_samples X) ev"
    and "i < n_trials X"
  shows "\<exists>o1 o2 o3 o4 calls.
      Covariances_transform reg cov X = Inr (o1, cov) \<and> length o1 = n_trials X \<and>
      o1 ! i = estimate_single e1 (trials X ! i) \<and>
      ERPCovariances_transform reg erp X = Inr (o2, erp) \<and> length o2 = n_trials X \<and>
      o2 ! i = estimate_single e2 (P @ trials X ! i) \<and>
      XdawnCovariances_transform sf reg xdc X = Inr (o3, xdc) \<and> length o3 = n_trials X \<and>
      o3 ! i = estimate_single e3
                 (ev @ (if applyfilters xdc then Xdawn_project sf (Xd xdc) (trials X ! i)
                        else trials X ! i)) \<and>
      CospCovariances_transform cosp csp X = ((o4, calls), csp) \<and> length o4 = n_trials X \<and>
      o4 ! i = real_part (cosp (trials X ! i) (window csp) (overlap csp) (fmin csp) (fmax csp)
                 (fs csp))"
proof -
  have i: "i < length (trials X)"
    using assms(8) by (simp add: n_trials_def)
  have c1: "Covariances_transform reg cov X = Inr (map (estimate_single e1) (trials X), cov)"
    using assms(1) by (simp add: Covariances_transform_def covariances_eq)
  have c2: "ERPCovariances_transform reg erp X =
      Inr (map (\<lambda>x. estimate_single e2 (P @ x)) (trials X), erp)"
    using assms(2) covariances_EP_eq2 [of reg "erp_estimator erp" e2 X P, OF assms(3,4)]
    by (simp add: ERPCovariances_transform_def)
  have c3: "XdawnCovariances_transform sf reg xdc X =
      Inr (map (\<lambda>x. estimate_single e3
                  (ev @ (if applyfilters xdc then Xdawn_project sf (Xd xdc) x else x)))
             (trials X), xdc)"
  proof (cases "applyfilters xdc")
    case True
    have "list_all (\<lambda>r. length r = n_samples (Xdawn_transform sf (Xd xdc) X)) ev"
      using assms(7) by (simp add: Xdawn_transform_def)
    from covariances_EP_eq2 [of reg "xd_estimator xdc" e3 "Xdawn_transform sf (Xd xdc) X" ev, OF assms(6) this] True assms(5) show ?thesis
      by (simp add: XdawnCovariances_transform_def Xdawn_transform_def comp_def)
  next
    case False
    with covariances_EP_eq2 [of reg "xd_estimator xdc" e3 X ev, OF assms(6,7)] assms(5) show ?thesis
      by (simp add: XdawnCovariances_transform_def)
  qed
  show ?thesis
    unfolding c1 c2 c3 CospCovariances_transform_eq
    using i by (simp add: n_trials_def)
qed

theorem transforms_preserve_order_witness:
  "scm_only (estimator (Covariances_init ''scm'')) = Some scm_rule \<and>
   evokeds example_filter (Xd example_xdawn) = Some [[16 / 3, 0], [0, 2]] \<and>
   (1 :: nat) < n_trials example_batch \<and>
   (\<exists>o1 o2 o3 o4 calls.
      Covariances_transform scm_only (Covariances_init ''scm'') example_batch =
        Inr (o1, Covariances_init ''scm'') \<and>
      o1 ! 1 = [[16, 0], [0, 4]] \<and>
      ERPCovariances_transform scm_only (example_erp (PyInt 1) (Some [[4, 0], [6, 0]]))
          example_batch =
        Inr (o2, example_erp (PyInt 1) (Some [[4, 0], [6, 0]])) \<and>
      o2 ! 1 = [[16, 24, 16, 0], [24, 36, 24, 0], [16, 24, 16, 0], [0, 0, 0, 4]] \<and>
      XdawnCovariances_transform example_filter scm_only example_xdawn example_batch =
        Inr (o3, example_xdawn) \<and>
      o3 ! 1 = [[256 / 9, 0, 64 / 3], [0, 4, 0], [64 / 3, 0, 16]] \<and>
      CospCovariances_transform example_cospectrum example_cosp example_batch =
        ((o4, calls), example_cosp) \<and>
      o4 ! 1 = [[[768]]])"
proof -
  have h1: "scm_only (estimator (Covariances_init ''scm'')) = Some scm_rule"
    by (simp add: scm_only_def Covariances_init_def)
  have h2: "erp_P (example_erp (PyInt 1) (Some [[4, 0], [6, 0]])) = Some [[4, 0], [6, 0]]"
    by (simp add: example_erp_def)
  have h3: "scm_only (erp_estimator (example_erp (PyInt 1) (Some [[4, 0], [6, 0]]))) = Some scm_rule"
    by (simp add: scm_only_def example_erp_def)
  have h4: "list_all (\<lambda>r. length r = n_samples example_batch) [[4 :: rat, 0], [6, 0]]"
    by (simp add: example_batch_def)
  have h5: "evokeds example_filter (Xd example_xdawn) = Some [[16 / 3, 0], [0, 2]]"
    by (simp add: example_filter_def example_xdawn_def)
  have h6: "scm_only (xd_estimator example_xdawn) = Some scm_rule"
    by (simp add: scm_only_def example_xdawn_def)
  have h7: "list_all (\<lambda>r. length r = n_samples example_batch) [[16 / 3 :: rat, 0], [0, 2]]"
    by (simp add: example_batch_def)
  have h8: "(1 :: nat) < n_trials example_batch"
    by (simp add: example_batch_def n_trials_def)
  have e1: "estimate_single scm_rule (trials example_batch ! 1) = [[16, 0], [0, 4]]"
    by code_simp
  have e2: "estimate_single scm_rule ([[4, 0], [6, 0]] @ trials example_batch ! 1) =
      [[16, 24, 16, 0], [24, 36, 24, 0], [16, 24, 16, 0], [0, 0, 0, 4]]"
    by code_simp
  have e3: "estimate_single scm_rule
      ([[16 / 3, 0], [0, 2]] @
       (if applyfilters example_xdawn
        then Xdawn_project example_filter (Xd example_xdawn) (trials example_batch ! 1)
        else trials example_batch ! 1)) =
      [[256 / 9, 0, 64 / 3], [0, 4, 0], [64 / 3, 0, 16]]"
    by code_simp
  have e4: "real_part (example_cospectrum (trials example_batch ! 1) (window example_cosp)
      (overlap example_cosp) (fmin example_cosp) (fmax example_cosp) (fs example_cosp)) = [[[768]]]"
    by code_simp
  from transforms_preserve_order [where reg = scm_only and sf = example_filter
      and X = example_batch and cosp = example_cospectrum and csp = example_cosp,
      OF h1 h2 h3 h4 h5 h6 h7 h8]
  show ?thesis
    unfolding e1 e2 e3 e4 using h1 h5 h8 by blast
qed

subsection \<open>\<open>fit\<close> and \<open>fit_transform\<close>\<close>

text \<open>
  C7. \<^verbatim>\<open>fit\<close> of \<open>Covariances\<close> and of \<open>CospCovariances\<close> returns the component as it
  was, whatever the batch and the labels, and \<^verbatim>\<open>fit_transform\<close> of \<open>CospCovariances\<close>
  returns what \<^verbatim>\<open>transform\<close> returns on the batch, before and after \<^verbatim>\<open>fit\<close>.
\<close>

theorem fit_without_effect:
  "Covariances_fit cov X y = cov \<and>
   CospCovariances_fit csp X' y' = csp \<and>
   CospCovariances_fit_transform cosp csp X' y' = CospCovariances_transform cosp csp X' \<and>
   CospCovariances_fit_transform cosp csp X' y' =
     CospCovariances_transform cosp (CospCovariances_fit csp X' y') X'"
  by (simp add: Covariances_fit_def CospCovariances_fit_def CospCovariances_fit_transform_def)

text \<open>
  C8. \<^verbatim>\<open>fit_transform\<close> of \<open>XdawnCovariances\<close> is \<^verbatim>\<open>fit\<close> followed by \<^verbatim>\<open>transform\<close>
  of the same batch on the object that \<^verbatim>\<open>fit\<close> leaves: when the spatial filter is fitted,
  it returns what \<^verbatim>\<open>transform\<close> returns with the fitted filter, and when the fitting
  fails, it fails with the same error.
\<close>

theorem XdawnCovariances_fit_transform_sequential:
  "XdawnCovariances_fit_transform sf reg self X y =
     (case XdawnCovariances_fit sf self X y of
        Inl err \<Rightarrow> Inl err
      | Inr self1 \<Rightarrow> XdawnCovariances_transform sf reg self1 X) \<and>
   (Xdawn_fit sf (Xd self) X y = Inr xd \<longrightarrow>
      XdawnCovariances_fit sf self X y = Inr (self\<lparr>Xd := xd\<rparr>) \<and>
      XdawnCovariances_fit_transform sf reg self X y =
        XdawnCovariances_transform sf reg (self\<lparr>Xd := xd\<rparr>) X) \<and>
   (Xdawn_fit sf (Xd self) X y = Inl err \<longrightarrow>
      XdawnCovariances_fit sf self X y = Inl err \<and>
      XdawnCovariances_fit_transform sf reg self X y = Inl err)"
  by (simp add: XdawnCovariances_fit_transform_def XdawnCovariances_fit_def)

theorem XdawnCovariances_fit_transform_sequential_witness:
  "Xdawn_fit example_filter (Xd (XdawnCovariances_init example_filter 4 True None ''scm''))
       example_batch example_labels = Inr (Some [[16 / 3, 0], [0, 2]]) \<and>
   XdawnCovariances_fit example_filter (XdawnCovariances_init example_filter 4 True None ''scm'')
       example_batch example_labels = Inr example_xdawn \<and>
   XdawnCovariances_fit_transform example_filter scm_only
       (XdawnCovariances_init example_filter 4 True None ''scm'') example_batch example_labels =
     XdawnCovariances_transform example_filter scm_only example_xdawn example_batch \<and>
   XdawnCovariances_transform example_filter scm_only example_xdawn example_batch =
     Inr ([[[256 / 9, 0, 32 / 3], [0, 4, 0], [32 / 3, 0, 4]],
           [[256 / 9, 0, 64 / 3], [0, 4, 0], [64 / 3, 0, 16]],
           [[256 / 9, 0, 160 / 3], [0, 4, 0], [160 / 3, 0, 100]]], example_xdawn)"
proof -
  have h: "Xdawn_fit example_filter (Xd (XdawnCovariances_init example_filter 4 True None ''scm''))
       example_batch example_labels = Inr (Some [[16 / 3, 0], [0, 2]])"
    by code_simp
  have upd: "(XdawnCovariances_init example_filter 4 True None ''scm'')
      \<lparr>Xd := Some [[16 / 3, 0], [0, 2]]\<rparr> = example_xdawn"
    by (simp add: XdawnCovariances_init_def example_xdawn_def)
  have ev: "XdawnCovariances_transform example_filter scm_only example_xdawn example_batch =
     Inr ([[[256 / 9, 0, 32 / 3], [0, 4, 0], [32 / 3, 0, 4]],
           [[256 / 9, 0, 64 / 3], [0, 4, 0], [64 / 3, 0, 16]],
           [[256 / 9, 0, 160 / 3], [0, 4, 0], [160 / 3, 0, 100]]], example_xdawn)"
    by code_simp
  from XdawnCovariances_fit_transform_sequential [of example_filter scm_only
      "XdawnCovariances_init example_filter 4 True None ''scm''" example_batch example_labels
      "Some [[16 / 3, 0], [0, 2]]" IndexError] h ev
  show ?thesis
    unfolding upd by simp
qed

subsection \<open>\<open>transform\<close> leaves the component as it was\<close>







end
